theory Spec2Isabelle
  imports Complex_Main "HOL-Library.Multiset"
begin

section \<open>Numbers of the source\<close>

text \<open>
  The audit is JavaScript; its numbers are IEEE doubles. They are modelled as reals, and
  NaN and the infinities as an argument are outside this development, but for the fields
  of a network request and the compression ratio computed from them, described below.
  A field of a network request that the source reads as \<^verbatim>\<open>x || 0\<close> may be missing,
  and \<^verbatim>\<open>undefined - w\<close> is NaN, so such a field has three shapes.
\<close>

datatype jsnum = Undefined | NaN | Num real

text \<open>\<^verbatim>\<open>x || 0\<close>: undefined, NaN and 0 are falsy.\<close>

fun or_zero :: "jsnum \<Rightarrow> real" where
  "or_zero Undefined = 0"
| "or_zero NaN = 0"
| "or_zero (Num r) = r"

text \<open>Truthiness of a number-valued field, as \<^verbatim>\<open>some(record => record.transferSize)\<close> reads it.\<close>

fun truthy :: "jsnum \<Rightarrow> bool" where
  "truthy Undefined = False"
| "truthy NaN = False"
| "truthy (Num r) = (r \<noteq> 0)"

text \<open>\<^verbatim>\<open>Math.round\<close> rounds to the nearest integer, a half towards plus infinity.\<close>

definition Math_round :: "real \<Rightarrow> real" where
  "Math_round x = of_int \<lfloor>x + 1 / 2\<rfloor>"

text \<open>
  The resource size of a request is the one number that the source passes through
  \<^verbatim>\<open>Number.isFinite\<close>: it may also be an infinity. \<open>jsfloat\<close> is a number other than
  NaN, \<open>jsfield\<close> a field that holds a number, NaN or nothing.
\<close>

datatype jsfloat = Finite real | PlusInfinity | MinusInfinity

datatype jsfield = Missing | NotANumber | Number jsfloat

text \<open>\<^verbatim>\<open>x || 0\<close> on such a field: an infinity is truthy and stays.\<close>

fun field_or_zero :: "jsfield \<Rightarrow> jsfloat" where
  "field_or_zero Missing = Finite 0"
| "field_or_zero NotANumber = Finite 0"
| "field_or_zero (Number x) = x"

fun Number_isFinite :: "jsfloat \<Rightarrow> bool" where
  "Number_isFinite (Finite x) = True"
| "Number_isFinite PlusInfinity = False"
| "Number_isFinite MinusInfinity = False"

text \<open>\<^verbatim>\<open>x > b\<close> for a finite \<open>b\<close>.\<close>

fun js_greater :: "jsfloat \<Rightarrow> real \<Rightarrow> bool" where
  "js_greater (Finite x) b = (b < x)"
| "js_greater PlusInfinity b = True"
| "js_greater MinusInfinity b = False"

text \<open>
  The result of an operation on doubles is the exact result rounded to the nearest double,
  a tie to the one with an even significand. \<open>binary64\<close> is that rounding: a double has a
  significand of 53 bits, and below \<open>2 powr - 1022\<close> the doubles are \<open>2 powr - 1074\<close> apart.
  The overflow to an infinity, beyond the largest double, is left out. The rounding is
  written where the source computes the compression ratio and multiplies by it; the other
  products and differences of the audit are taken exactly.
\<close>

definition round_half_even :: "real \<Rightarrow> int" where
  "round_half_even x =
     (let f = \<lfloor>x\<rfloor>; d = x - of_int f
      in if d < 1 / 2 then f else if 1 / 2 < d then f + 1 else if even f then f else f + 1)"

definition binary64 :: "real \<Rightarrow> real" where
  "binary64 x =
     (if x = 0 then 0
      else (let e = max \<lfloor>log 2 \<bar>x\<bar>\<rfloor> (- 1022); ulp = 2 powr of_int (e - 52)
            in of_int (round_half_even (x / ulp)) * ulp))"

text \<open>
  \<^verbatim>\<open>x / y\<close> for a finite \<open>x\<close> and a \<open>y\<close> other than 0: a finite number over an infinity
  is 0. (Over 0 the quotient is an infinity or NaN; the source divides by a positive size
  only.)
\<close>

fun js_divide :: "real \<Rightarrow> jsfloat \<Rightarrow> real" where
  "js_divide x (Finite y) = binary64 (x / y)"
| "js_divide x PlusInfinity = 0"
| "js_divide x MinusInfinity = 0"

section \<open>Score curve\<close>

definition WASTED_MS_FOR_AVERAGE :: real where
  "WASTED_MS_FOR_AVERAGE = 300"

definition WASTED_MS_FOR_POOR :: real where
  "WASTED_MS_FOR_POOR = 750"

definition WASTED_MS_FOR_SCORE_OF_ZERO :: real where
  "WASTED_MS_FOR_SCORE_OF_ZERO = 5000"

text \<open>
  Modelled from the spec: \<^verbatim>\<open>linearInterpolation\<close> of \<^verbatim>\<open>lib/statistics.js\<close>, which is
  imported by the audit and is not part of the sources at hand. The specification says
  that between two anchor points the score is interpolated linearly: the value at \<open>x\<close> of
  the line through \<open>(x0, y0)\<close> and \<open>(x1, y1)\<close>.
\<close>

definition linearInterpolation :: "real \<Rightarrow> real \<Rightarrow> real \<Rightarrow> real \<Rightarrow> real \<Rightarrow> real" where
  "linearInterpolation x0 y0 x1 y1 x = y0 + (x - x0) * ((y1 - y0) / (x1 - x0))"

definition scoreForWastedMs :: "real \<Rightarrow> real" where
  "scoreForWastedMs wastedMs =
     (if wastedMs \<le> 0 then 1
      else if wastedMs < WASTED_MS_FOR_AVERAGE then
        linearInterpolation 0 1 WASTED_MS_FOR_AVERAGE 0.75 wastedMs
      else if wastedMs < WASTED_MS_FOR_POOR then
        linearInterpolation WASTED_MS_FOR_AVERAGE 0.75 WASTED_MS_FOR_POOR 0.5 wastedMs
      else
        max 0 (linearInterpolation WASTED_MS_FOR_POOR 0.5 WASTED_MS_FOR_SCORE_OF_ZERO 0 wastedMs))"

section \<open>Transfer size estimate\<close>

text \<open>
  The fields of \<^verbatim>\<open>LH.Artifacts.NetworkRequest\<close> that the audit reads. The resource type
  is a string or undefined.
\<close>

record network_request =
  requestId :: string
  url :: string
  resourceType :: "string option"
  transferSize :: jsnum
  resourceSize :: jsfield

text \<open>
  The \<^verbatim>\<open>switch\<close> of the branch without a record compares the requested type with
  three string literals; an absent type falls to \<^verbatim>\<open>default\<close>.
\<close>

definition estimateTransferSize :: "network_request option \<Rightarrow> real \<Rightarrow> string option \<Rightarrow> real" where
  "estimateTransferSize networkRecord totalBytes rtype =
     (case networkRecord of
        None \<Rightarrow>
          (if rtype = Some ''Stylesheet'' then Math_round (totalBytes * 0.2)
           else if rtype = Some ''Script'' \<or> rtype = Some ''Document'' then
             Math_round (totalBytes * 0.33)
           else Math_round (totalBytes * 0.5))
      | Some r \<Rightarrow>
          (if resourceType r = rtype then or_zero (transferSize r)
           else
             (let tSize = or_zero (transferSize r);
                  rSize = field_or_zero (resourceSize r);
                  compressionRatio =
                    (if Number_isFinite rSize \<and> js_greater rSize 0 then js_divide tSize rSize
                     else 1)
              in Math_round (binary64 (totalBytes * compressionRatio)))))"

section \<open>Graph simulation\<close>

text \<open>
  One entry of the detector's \<^verbatim>\<open>items\<close>: the fields of
  \<^verbatim>\<open>LH.Audit.ByteEfficiencyItem\<close> that the audit reads.
\<close>

record byte_efficiency_item =
  url :: string
  wastedBytes :: real

text \<open>
  A node of the dependency graph is a network node carrying its request or a CPU node
  (named by its id); \<^verbatim>\<open>node.type !== 'network'\<close> tells them apart.
\<close>

datatype node = NetworkNode network_request | CPUNode string

text \<open>
  Modelled from the spec: \<^verbatim>\<open>graph.traverse\<close> of
  \<^verbatim>\<open>lib/dependency-graph/base-node.js\<close>, which is not part of the sources at hand. The
  specification treats the graph as an opaque structure that enumerates all its nodes, so a
  graph is the list of its nodes in the order of the traversal, each node owning its
  request, and \<open>traverse\<close> calls the callback on every node once, in that order. The callback
  may assign to the node's request and to the variables it closes over: it returns the node
  and that state.
\<close>

type_synonym graph = "node list"

fun traverse :: "(node \<Rightarrow> 's \<Rightarrow> node \<times> 's) \<Rightarrow> graph \<Rightarrow> 's \<Rightarrow> graph \<times> 's" where
  "traverse callback [] s = ([], s)"
| "traverse callback (n # ns) s =
     (case callback n s of
        (n', s') \<Rightarrow> (case traverse callback ns s' of (ns', s'') \<Rightarrow> (n' # ns', s'')))"

text \<open>\<^verbatim>\<open>original - wastedBytes\<close> and \<^verbatim>\<open>Math.max(x, 0)\<close> on a field that may be no number.\<close>

fun js_minus :: "jsnum \<Rightarrow> real \<Rightarrow> jsnum" where
  "js_minus Undefined w = NaN"
| "js_minus NaN w = NaN"
| "js_minus (Num a) w = Num (a - w)"

fun Math_max :: "jsnum \<Rightarrow> real \<Rightarrow> jsnum" where
  "Math_max Undefined b = NaN"
| "Math_max NaN b = NaN"
| "Math_max (Num a) b = Num (max a b)"

text \<open>
  The result of a simulation, and the simulator. The simulator is the collaborator of
  \<^verbatim>\<open>lib/dependency-graph/simulator\<close>, taken as a parameter: \<open>simulate\<close> reads the graph
  and the label and returns a result or raises (\<open>Inl\<close>, with the message); it assigns to no
  node. The node timings are of a type of the collaborator's.
\<close>

record 't simulation_result =
  timeInMs :: real
  nodeTimings :: 't

record 't simulator =
  simulate :: "graph \<Rightarrow> string \<Rightarrow> string + 't simulation_result"
  computeWastedMsFromWastedBytes :: "real \<Rightarrow> real"

text \<open>
  An error is thrown by the audit itself (\<open>Error\<close>, with its message) or raised by a
  collaborator and passed on unchanged (\<open>Raised\<close>).
\<close>

datatype error = Error string | Raised string

text \<open>The calls to collaborators, in the order they are made.\<close>

datatype event =
    NetworkRecordsRequest
  | DetectorCall
  | PageDependencyGraphRequest
  | LoadSimulatorRequest
  | ProcessedNavigationRequest
  | Simulate string
  | ComputeWastedMsFromWastedBytes real

text \<open>
  The options object of both entry points. \<open>None\<close> is a property that is absent (or
  undefined, for the map).
\<close>

record options =
  label :: "string option"
  includeLoad :: "bool option"
  providedWastedBytesByUrl :: "(string \<rightharpoonup> real) option"

record 't waste =
  savings :: real
  simulationBeforeChanges :: "'t simulation_result"
  simulationAfterChanges :: "'t simulation_result"

text \<open>
  \<^verbatim>\<open>wastedBytesByUrl.set(url, (wastedBytesByUrl.get(url) || 0) + wastedBytes)\<close>, for one
  item, and the loop over the items.
\<close>

definition addWastedBytes :: "(string \<rightharpoonup> real) \<Rightarrow> byte_efficiency_item \<Rightarrow> (string \<rightharpoonup> real)" where
  "addWastedBytes m item =
     m(byte_efficiency_item.url item \<mapsto>
         (case m (byte_efficiency_item.url item) of None \<Rightarrow> 0 | Some v \<Rightarrow> v) + wastedBytes item)"

definition effectiveWastedBytesByUrl ::
  "options \<Rightarrow> byte_efficiency_item list \<Rightarrow> (string \<rightharpoonup> real)" where
  "effectiveWastedBytesByUrl opts results =
     (case providedWastedBytesByUrl opts of
        Some m \<Rightarrow> m
      | None \<Rightarrow> foldl addWastedBytes Map.empty results)"

text \<open>
  The callback of the first traversal. It closes over the map of wasted bytes and over
  \<^verbatim>\<open>originalTransferSizes\<close>, which it extends. \<^verbatim>\<open>!wastedBytes\<close> holds for an absent entry
  and for the entry 0.
\<close>

definition reduceTransferSize ::
  "(string \<rightharpoonup> real) \<Rightarrow> node \<Rightarrow> (string \<rightharpoonup> jsnum) \<Rightarrow> node \<times> (string \<rightharpoonup> jsnum)" where
  "reduceTransferSize wastedBytesByUrl n originalTransferSizes =
     (case n of
        CPUNode c \<Rightarrow> (n, originalTransferSizes)
      | NetworkNode r \<Rightarrow>
          (case wastedBytesByUrl (network_request.url r) of
             None \<Rightarrow> (n, originalTransferSizes)
           | Some w \<Rightarrow>
               if w = 0 then (n, originalTransferSizes)
               else
                 (let original = transferSize r
                  in (NetworkNode (r\<lparr>transferSize := Math_max (js_minus original w) 0\<rparr>),
                      originalTransferSizes(requestId r \<mapsto> original)))))"

text \<open>
  The callback of the second traversal. \<^verbatim>\<open>originalTransferSizes.get(id) === undefined\<close>
  holds when nothing was recorded for the id and when undefined was recorded.
\<close>

definition restoreTransferSize :: "(string \<rightharpoonup> jsnum) \<Rightarrow> node \<Rightarrow> node" where
  "restoreTransferSize originalTransferSizes n =
     (case n of
        CPUNode c \<Rightarrow> n
      | NetworkNode r \<Rightarrow>
          (case originalTransferSizes (requestId r) of
             None \<Rightarrow> n
           | Some Undefined \<Rightarrow> n
           | Some originalTransferSize \<Rightarrow>
               NetworkNode (r\<lparr>transferSize := originalTransferSize\<rparr>)))"

text \<open>
  \<open>computeWasteWithGraph\<close> returns the graph as the call leaves it, the calls it made to
  the simulator, and its result or the error that ended it. \<open>meta_id\<close> is
  \<^verbatim>\<open>this.meta.id\<close>. An error of the simulator ends the call where it is raised: nothing
  catches it.
\<close>

definition computeWasteWithGraph ::
  "string \<Rightarrow> byte_efficiency_item list \<Rightarrow> graph \<Rightarrow> 't simulator \<Rightarrow> options
     \<Rightarrow> graph \<times> event list \<times> (error + 't waste)" where
  "computeWasteWithGraph meta_id results graph sim opts =
     (let lbl = (case label opts of None \<Rightarrow> [] | Some l \<Rightarrow> l);
          beforeLabel = meta_id @ ''-'' @ lbl @ ''-before'';
          afterLabel = meta_id @ ''-'' @ lbl @ ''-after''
      in case simulate sim graph beforeLabel of
           Inl e \<Rightarrow> (graph, [Simulate beforeLabel], Inl (Raised e))
         | Inr before \<Rightarrow>
             (let wastedBytesByUrl = effectiveWastedBytesByUrl opts results
              in case traverse (reduceTransferSize wastedBytesByUrl) graph Map.empty of
                   (graph1, originalTransferSizes) \<Rightarrow>
                     (case simulate sim graph1 afterLabel of
                        Inl e \<Rightarrow>
                          (graph1, [Simulate beforeLabel, Simulate afterLabel], Inl (Raised e))
                      | Inr after \<Rightarrow>
                          (case traverse
                                  (\<lambda>n u. (restoreTransferSize originalTransferSizes n, u))
                                  graph1 () of
                             (graph2, u) \<Rightarrow>
                               (let s = timeInMs before - timeInMs after
                                in (graph2,
                                    [Simulate beforeLabel, Simulate afterLabel],
                                    Inr \<lparr>savings = Math_round (max s 0 / 10) * 10,
                                         simulationBeforeChanges = before,
                                         simulationAfterChanges = after\<rparr>))))))"

text \<open>
  \<open>getLastLongTaskEndTime\<close> is \<^verbatim>\<open>LanternInteractive.getLastLongTaskEndTime\<close>, a
  collaborator taken as a parameter. \<^verbatim>\<open>Object.assign({includeLoad: true}, options)\<close>:
  an absent property is true.
\<close>

definition computeWasteWithTTIGraph ::
  "string \<Rightarrow> ('t \<Rightarrow> real) \<Rightarrow> byte_efficiency_item list \<Rightarrow> graph \<Rightarrow> 't simulator \<Rightarrow> options
     \<Rightarrow> graph \<times> event list \<times> (error + real)" where
  "computeWasteWithTTIGraph meta_id getLastLongTaskEndTime results graph sim opts =
     (let incl = (case includeLoad opts of None \<Rightarrow> True | Some b \<Rightarrow> b)
      in case computeWasteWithGraph meta_id results graph sim
                (opts\<lparr>includeLoad := Some incl, label := Some ''overallLoad''\<rparr>) of
           (graph', calls, Inl e) \<Rightarrow> (graph', calls, Inl e)
         | (graph', calls, Inr w) \<Rightarrow>
             (let savingsOnOverallLoad = savings w;
                  savingsOnTTI =
                    getLastLongTaskEndTime (nodeTimings (simulationBeforeChanges w)) -
                    getLastLongTaskEndTime (nodeTimings (simulationAfterChanges w));
                  s = (if incl then max savingsOnTTI savingsOnOverallLoad else savingsOnTTI)
              in (graph', calls, Inr (Math_round (max s 0 / 10) * 10))))"

section \<open>The audit product\<close>

text \<open>
  A message shown to the user: a text of the detector's (or the empty string), or the
  message \<^verbatim>\<open>displayValueByteSavings\<close> that the audit formats with the wasted bytes.
\<close>

datatype icu_message = Text string | DisplayValueByteSavings real

text \<open>
  \<^verbatim>\<open>ByteEfficiencyProduct\<close>, the detector's result. The headings are of a type of the
  report's; an optional property that is absent is \<open>None\<close>.
\<close>

record 'h byte_efficiency_product =
  items :: "byte_efficiency_item list"
  wastedBytesByUrl :: "(string \<rightharpoonup> real) option"
  headings :: 'h
  displayValue :: "icu_message option"
  explanation :: "icu_message option"
  warnings :: "icu_message list option"
  sortedBy :: "string list option"

record metric_savings =
  FCP :: real
  LCP :: real

record 'd audit_product =
  explanation :: "icu_message option"
  warnings :: "icu_message list option"
  displayValue :: icu_message
  numericValue :: real
  numericUnit :: string
  score :: real
  details :: 'd
  metricSavings :: metric_savings

text \<open>
  \<^verbatim>\<open>LH.Audit.Product\<close> as the audit returns it: the object with a score and the
  not-applicable flag only, or the full product.
\<close>

datatype 'd lh_product = ScoreOnly real bool | Full "'d audit_product"

record gather_context =
  gatherMode :: string

text \<open>
  What a call to the detector does: it throws at once, or it returns a promise that is
  rejected, or it (or its promise) gives the result.
\<close>

datatype 'a settled = Throws string | Rejects string | Resolves 'a

text \<open>
  The collaborators of the audit, taken as parameters. \<open>meta_id\<close> and \<open>audit_impl\<close> (the hook \<^verbatim>\<open>audit_\<close>) are the
  subclass's; the requests of the computed artifacts give their value or are rejected
  (\<open>Inl\<close>); the pessimistic graphs and the details of the report are computed by total
  functions of their arguments.
\<close>

record ('t, 'pn, 'h, 'd) collaborators =
  meta_id :: string
  audit_impl :: "network_request list \<Rightarrow> 'h byte_efficiency_product settled"
  NetworkRecords_request :: "string + network_request list"
  PageDependencyGraph_request :: "string + graph"
  LoadSimulator_request :: "string + 't simulator"
  ProcessedNavigation_request :: "string + 'pn"
  getLastLongTaskEndTime :: "'t \<Rightarrow> real"
  FCP_getPessimisticGraph :: "graph \<Rightarrow> 'pn \<Rightarrow> graph"
  LCP_getPessimisticGraph :: "graph \<Rightarrow> 'pn \<Rightarrow> graph"
  makeOpportunityDetails :: "'h \<Rightarrow> byte_efficiency_item list \<Rightarrow> real \<Rightarrow> real \<Rightarrow> string list \<Rightarrow> 'd"

text \<open>
  \<^verbatim>\<open>items.sort((itemA, itemB) => itemB.wastedBytes - itemA.wastedBytes)\<close>: the sort of
  an array is stable and orders by the comparator, here by descending wasted bytes. It
  sorts the array it is called on and returns that array.
\<close>

definition sortByWastedBytes :: "byte_efficiency_item list \<Rightarrow> byte_efficiency_item list" where
  "sortByWastedBytes xs = sort_key (\<lambda>item. - wastedBytes item) xs"

text \<open>The last statements of \<open>createAuditProduct\<close>, from the display value on.\<close>

definition assembleProduct ::
  "('t, 'pn, 'h, 'd) collaborators \<Rightarrow> 'h byte_efficiency_product \<Rightarrow> byte_efficiency_item list
     \<Rightarrow> real \<Rightarrow> real \<Rightarrow> metric_savings \<Rightarrow> 'd audit_product" where
  "assembleProduct env result results wasted wastedMs ms =
     (let dv = (case byte_efficiency_product.displayValue result of
                  Some d \<Rightarrow> d
                | None \<Rightarrow> if wasted \<noteq> 0 then DisplayValueByteSavings wasted else Text []);
          sortedBy' = (case sortedBy result of Some s \<Rightarrow> s | None \<Rightarrow> [''wastedBytes'']);
          details' = makeOpportunityDetails env (headings result) results wastedMs wasted sortedBy'
      in \<lparr>explanation = byte_efficiency_product.explanation result,
          warnings = byte_efficiency_product.warnings result,
          displayValue = dv,
          numericValue = wastedMs,
          numericUnit = ''millisecond'',
          score = scoreForWastedMs wastedMs,
          details = details',
          metricSavings = ms\<rparr>)"

text \<open>
  \<open>createAuditProduct\<close> returns the detector's array of items as the call leaves it, the
  calls made to the simulator, and the product or the error that ended the call. The
  pessimistic graphs are values of the collaborator's; what the runs on them leave in them
  is not followed, and neither is the line that the call writes to the console.
\<close>

definition createAuditProduct ::
  "('t, 'pn, 'h, 'd) collaborators \<Rightarrow> 'h byte_efficiency_product \<Rightarrow> graph option
     \<Rightarrow> 't simulator \<Rightarrow> 'pn option \<Rightarrow> gather_context
     \<Rightarrow> byte_efficiency_item list \<times> event list \<times> (error + 'd audit_product)" where
  "createAuditProduct env result graph sim processedNavigation gatherContext =
     (let results = sortByWastedBytes (items result);
          wasted = foldl (\<lambda>sum item. sum + wastedBytes item) 0 results
      in if gatherMode gatherContext = ''navigation'' then
           (case graph of
              None \<Rightarrow>
                (results, [],
                 Inl (Error ''Page dependency graph should always be computed in navigation mode''))
            | Some g \<Rightarrow>
                (case processedNavigation of
                   None \<Rightarrow>
                     (results, [],
                      Inl (Error ''Processed navigation should always be computed in navigation mode''))
                 | Some pn \<Rightarrow>
                     (case computeWasteWithTTIGraph (meta_id env) (getLastLongTaskEndTime env)
                             results g sim
                             \<lparr>label = None, includeLoad = None,
                              providedWastedBytesByUrl = wastedBytesByUrl result\<rparr> of
                        (g1, c1, Inl e) \<Rightarrow> (results, c1, Inl e)
                      | (g1, c1, Inr wastedMs) \<Rightarrow>
                          (let fcpGraph = FCP_getPessimisticGraph env g1 pn;
                               lcpGraph = LCP_getPessimisticGraph env g1 pn
                           in case computeWasteWithGraph (meta_id env) results fcpGraph sim
                                     \<lparr>label = Some ''fcp'', includeLoad = None,
                                      providedWastedBytesByUrl = wastedBytesByUrl result\<rparr> of
                                (g2, c2, Inl e) \<Rightarrow> (results, c1 @ c2, Inl e)
                              | (g2, c2, Inr fcp) \<Rightarrow>
                                  (case computeWasteWithGraph (meta_id env) results lcpGraph sim
                                          \<lparr>label = Some ''lcp'', includeLoad = None,
                                           providedWastedBytesByUrl = wastedBytesByUrl result\<rparr> of
                                     (g3, c3, Inl e) \<Rightarrow> (results, c1 @ c2 @ c3, Inl e)
                                   | (g3, c3, Inr lcp) \<Rightarrow>
                                       (results, c1 @ c2 @ c3,
                                        Inr (assembleProduct env result results wasted wastedMs
                                               \<lparr>FCP = savings fcp, LCP = savings lcp\<rparr>)))))))
         else
           (results, [ComputeWastedMsFromWastedBytes wasted],
            Inr (assembleProduct env result results wasted
                   (computeWastedMsFromWastedBytes sim wasted) \<lparr>FCP = 0, LCP = 0\<rparr>)))"

text \<open>
  The entry point. \<^verbatim>\<open>Promise.all\<close> starts the four computations in the order of the
  array, the graph and the processed navigation in navigation mode only; when one of them
  is rejected the audit is rejected, here with the first rejection in the order of the
  array. A detector that throws at once ends the audit before the others are started.
  \<open>audit\<close> returns the calls made to collaborators and the product or the error.
\<close>

definition audit ::
  "('t, 'pn, 'h, 'd) collaborators \<Rightarrow> gather_context \<Rightarrow> event list \<times> (error + 'd lh_product)" where
  "audit env gatherContext =
     (case NetworkRecords_request env of
        Inl e \<Rightarrow> ([NetworkRecordsRequest], Inl (Raised e))
      | Inr networkRecords \<Rightarrow>
          (let hasContentfulRecords = list_ex (\<lambda>r. truthy (transferSize r)) networkRecords
           in if \<not> hasContentfulRecords \<and> gatherMode gatherContext = ''timespan'' then
                ([NetworkRecordsRequest], Inr (ScoreOnly 1 True))
              else
                (let nav = (gatherMode gatherContext = ''navigation'');
                     started = [NetworkRecordsRequest, DetectorCall]
                       @ (if nav then [PageDependencyGraphRequest] else [])
                       @ [LoadSimulatorRequest]
                       @ (if nav then [ProcessedNavigationRequest] else [])
                 in case audit_impl env networkRecords of
                      Throws e \<Rightarrow> ([NetworkRecordsRequest, DetectorCall], Inl (Raised e))
                    | Rejects e \<Rightarrow> (started, Inl (Raised e))
                    | Resolves result \<Rightarrow>
                        (case (if nav then map_sum id Some (PageDependencyGraph_request env)
                               else Inr None) of
                           Inl e \<Rightarrow> (started, Inl (Raised e))
                         | Inr graph \<Rightarrow>
                             (case LoadSimulator_request env of
                                Inl e \<Rightarrow> (started, Inl (Raised e))
                              | Inr sim \<Rightarrow>
                                  (case (if nav
                                         then map_sum id Some (ProcessedNavigation_request env)
                                         else Inr None) of
                                     Inl e \<Rightarrow> (started, Inl (Raised e))
                                   | Inr processedNavigation \<Rightarrow>
                                       (case createAuditProduct env result graph sim
                                               processedNavigation gatherContext of
                                          (items', calls, r) \<Rightarrow>
                                            (started @ calls, map_sum id Full r))))))))"

section \<open>Notions used to state the properties\<close>

text \<open>The requests of the network nodes of a graph, in the order of the traversal.\<close>

fun requestOf :: "node \<Rightarrow> network_request option" where
  "requestOf (NetworkNode r) = Some r"
| "requestOf (CPUNode c) = None"

definition requests :: "graph \<Rightarrow> network_request list" where
  "requests g = List.map_filter requestOf g"

text \<open>
  The map of wasted bytes applies to a request when it holds an entry for the request's
  url that \<^verbatim>\<open>!wastedBytes\<close> does not reject.
\<close>

definition applies :: "(string \<rightharpoonup> real) \<Rightarrow> network_request \<Rightarrow> bool" where
  "applies wbu r = (case wbu (network_request.url r) of None \<Rightarrow> False | Some w \<Rightarrow> w \<noteq> 0)"

section \<open>Example inputs\<close>

text \<open>
  A simulator whose time is a hundredth of the bytes of the graph, and one that also
  raises on a graph with a request of no bytes.
\<close>

definition bytesOf :: "node \<Rightarrow> real" where
  "bytesOf n = (case n of NetworkNode r \<Rightarrow> or_zero (transferSize r) | CPUNode c \<Rightarrow> 0)"

definition example_simulator :: "real simulator" where
  "example_simulator =
     \<lparr>simulate = (\<lambda>g l. Inr \<lparr>timeInMs = sum_list (map bytesOf g) / 100,
                               nodeTimings = sum_list (map bytesOf g) / 200\<rparr>),
      computeWastedMsFromWastedBytes = (\<lambda>b. b / 100)\<rparr>"

definition strict_simulator :: "real simulator" where
  "strict_simulator =
     \<lparr>simulate =
        (\<lambda>g l. if list_ex (\<lambda>n. case n of NetworkNode r \<Rightarrow> transferSize r = Num 0
                                        | CPUNode c \<Rightarrow> False) g
               then Inl ''request without bytes''
               else Inr \<lparr>timeInMs = sum_list (map bytesOf g) / 100,
                         nodeTimings = sum_list (map bytesOf g) / 200\<rparr>),
      computeWastedMsFromWastedBytes = (\<lambda>b. b / 100)\<rparr>"

definition example_graph :: graph where
  "example_graph =
     [NetworkNode \<lparr>requestId = ''1'', url = ''a.js'', resourceType = Some ''Script'',
                   transferSize = Num 10000, resourceSize = Number (Finite 30000)\<rparr>,
      CPUNode ''task'',
      NetworkNode \<lparr>requestId = ''2'', url = ''b.css'', resourceType = Some ''Stylesheet'',
                   transferSize = Num 3000, resourceSize = Number (Finite 9000)\<rparr>]"

definition small_graph :: graph where
  "small_graph =
     [NetworkNode \<lparr>requestId = ''1'', url = ''a.js'', resourceType = Some ''Script'',
                   transferSize = Num 100, resourceSize = Number (Finite 300)\<rparr>]"

definition example_items :: "byte_efficiency_item list" where
  "example_items =
     [\<lparr>url = ''b.css'', wastedBytes = 1000\<rparr>,
      \<lparr>url = ''a.js'', wastedBytes = 4000\<rparr>,
      \<lparr>url = ''b.css'', wastedBytes = 340\<rparr>]"

definition no_options :: options where
  "no_options = \<lparr>label = None, includeLoad = None, providedWastedBytesByUrl = None\<rparr>"

definition example_result :: "string list byte_efficiency_product" where
  "example_result =
     \<lparr>items = example_items, wastedBytesByUrl = None, headings = [''url'', ''wastedBytes''],
      displayValue = None, explanation = None, warnings = None, sortedBy = None\<rparr>"

text \<open>
  Collaborators of a page with the example graph, and of a time span in which no request
  carried bytes.
\<close>

definition example_collaborators ::
  "(real, unit, string list, byte_efficiency_item list) collaborators" where
  "example_collaborators =
     \<lparr>meta_id = ''unused-css-rules'',
      audit_impl = (\<lambda>records. Resolves example_result),
      NetworkRecords_request = Inr (requests example_graph),
      PageDependencyGraph_request = Inr example_graph,
      LoadSimulator_request = Inr example_simulator,
      ProcessedNavigation_request = Inr (),
      getLastLongTaskEndTime = (\<lambda>t. t),
      FCP_getPessimisticGraph = (\<lambda>g pn. take 1 g),
      LCP_getPessimisticGraph = (\<lambda>g pn. g),
      makeOpportunityDetails = (\<lambda>h results ms bytes sorted. results)\<rparr>"

definition idle_collaborators ::
  "(real, unit, string list, byte_efficiency_item list) collaborators" where
  "idle_collaborators =
     example_collaborators
       \<lparr>NetworkRecords_request :=
          Inr [\<lparr>requestId = ''7'', url = ''data:,'', resourceType = None,
                transferSize = Undefined, resourceSize = Missing\<rparr>,
               \<lparr>requestId = ''8'', url = ''cached.js'', resourceType = Some ''Script'',
                transferSize = Num 0, resourceSize = Number (Finite 500)\<rparr>]\<rparr>"

section \<open>Properties of the score curve\<close>

lemmas WASTED_defs =
  WASTED_MS_FOR_AVERAGE_def WASTED_MS_FOR_POOR_def WASTED_MS_FOR_SCORE_OF_ZERO_def

lemma score_nonpositive: "x \<le> 0 \<Longrightarrow> scoreForWastedMs x = 1"
  by (simp add: scoreForWastedMs_def)

lemma score_anchors: "scoreForWastedMs 300 = 0.75 \<and> scoreForWastedMs 750 = 0.5"
  by (simp add: scoreForWastedMs_def linearInterpolation_def WASTED_defs)

lemma score_beyond: "5000 \<le> x \<Longrightarrow> scoreForWastedMs x = 0"
  unfolding scoreForWastedMs_def linearInterpolation_def WASTED_defs
  by (simp add: max_def field_simps)

lemma score_antimono: "x \<le> y \<Longrightarrow> scoreForWastedMs y \<le> scoreForWastedMs x"
  unfolding scoreForWastedMs_def linearInterpolation_def WASTED_defs
  by (auto simp: max_def field_simps)

lemma score_bounds: "0 \<le> scoreForWastedMs x \<and> scoreForWastedMs x \<le> 1"
  unfolding scoreForWastedMs_def linearInterpolation_def WASTED_defs
  by (auto simp: max_def field_simps)

text \<open>
  Claim C3. \<open>scoreForWastedMs\<close> is 1 for every wasted time of at most 0, is 0.75 at 300,
  0.5 at 750 and 0 from 5000 on; it never increases when the wasted time grows, and every
  score lies between 0 and 1.
\<close>

theorem scoreForWastedMs_curve:
  "(\<forall>x. x \<le> 0 \<longrightarrow> scoreForWastedMs x = 1) \<and>
   scoreForWastedMs 300 = 0.75 \<and>
   scoreForWastedMs 750 = 0.5 \<and>
   (\<forall>x. 5000 \<le> x \<longrightarrow> scoreForWastedMs x = 0) \<and>
   (\<forall>x y. x \<le> y \<longrightarrow> scoreForWastedMs y \<le> scoreForWastedMs x) \<and>
   (\<forall>x. 0 \<le> scoreForWastedMs x \<and> scoreForWastedMs x \<le> 1)"
  using score_nonpositive score_anchors score_beyond score_antimono score_bounds by blast

theorem scoreForWastedMs_curve_witness:
  "(- 20 :: real) \<le> 0 \<and> scoreForWastedMs (- 20) = 1 \<and>
   (5000 :: real) \<le> 6000 \<and> scoreForWastedMs 6000 = 0 \<and>
   (100 :: real) \<le> 400 \<and> scoreForWastedMs 400 \<le> scoreForWastedMs 100"
proof -
  have a: "(- 20 :: real) \<le> 0" and b: "(5000 :: real) \<le> 6000" and c: "(100 :: real) \<le> 400"
    by simp_all
  from scoreForWastedMs_curve a have "scoreForWastedMs (- 20) = 1" by blast
  moreover from scoreForWastedMs_curve b have "scoreForWastedMs 6000 = 0" by blast
  moreover from scoreForWastedMs_curve c
  have "scoreForWastedMs 400 \<le> scoreForWastedMs 100" by blast
  ultimately show ?thesis using a b c by blast
qed

section \<open>Properties of the transfer size estimate\<close>

subsection \<open>Rounding to a double\<close>

lemma floor_log2:
  assumes "2 powr of_int k \<le> x" and "x < 2 powr of_int (k + 1)"
  shows "\<lfloor>log 2 x\<rfloor> = k"
proof -
  have "0 < (2::real) powr of_int k" by simp
  with assms(1) have x: "0 < x" by linarith
  have "of_int k \<le> log 2 x" using assms(1) x by (simp add: le_log_iff)
  moreover have "log 2 x < of_int k + 1" using assms(2) x by (simp add: log_less_iff)
  ultimately show ?thesis by (simp add: floor_eq_iff)
qed

text \<open>The double next to a number of which the binary exponent \<open>k\<close> is known.\<close>

lemma binary64_eval:
  assumes "x \<noteq> 0" and "2 powr of_int k \<le> \<bar>x\<bar>" and "\<bar>x\<bar> < 2 powr of_int (k + 1)"
    and "- 1022 \<le> k" and "u = 2 powr of_int (k - 52)"
  shows "binary64 x = of_int (round_half_even (x / u)) * u"
  using assms floor_log2 [OF assms(2,3)] by (simp add: binary64_def Let_def max_def)

lemma round_half_even_int: "round_half_even (of_int m) = m"
  by (simp add: round_half_even_def)

text \<open>An integer below \<open>2 ^ 53\<close> in absolute value, as a count of bytes is, is a double.\<close>

lemma binary64_int:
  fixes n :: int
  assumes "\<bar>n\<bar> < 2 ^ 53"
  shows "binary64 (of_int n) = of_int n"
proof (cases "n = 0")
  case True
  then show ?thesis by (simp add: binary64_def)
next
  case False
  define e where "e = \<lfloor>log 2 \<bar>real_of_int n\<bar>\<rfloor>"
  have n1: "1 \<le> \<bar>real_of_int n\<bar>"
    using False by (simp flip: of_int_abs add: int_one_le_iff_zero_less)
  then have "0 \<le> log 2 \<bar>real_of_int n\<bar>" by simp
  then have e0: "0 \<le> e" unfolding e_def by simp
  have "\<bar>real_of_int n\<bar> < 2 ^ 53"
    using assms by (metis of_int_abs of_int_less_numeral_power_cancel_iff)
  then have "log 2 \<bar>real_of_int n\<bar> < 53" using n1 by (simp add: log_less_iff powr_numeral)
  then have e52: "e \<le> 52" unfolding e_def by linarith
  define j where "j = nat (52 - e)"
  have u: "2 powr real_of_int (e - 52) = 1 / 2 ^ j"
  proof (cases "e = 52")
    case True
    then show ?thesis by (simp add: j_def)
  next
    case False
    with e52 have "e - 52 < 0" by simp
    then have "2 powr real_of_int (e - 52) = inverse (2 ^ nat (- (e - 52)))"
      using powr_real_of_int [of 2 "e - 52"] by simp
    then show ?thesis by (simp add: j_def inverse_eq_divide)
  qed
  have "real_of_int n / (1 / 2 ^ j) = real_of_int (n * 2 ^ j)" by simp
  then have r: "round_half_even (real_of_int n / (1 / 2 ^ j)) = n * 2 ^ j"
    by (simp only: round_half_even_int)
  have m: "max e (- 1022) = e" using e0 by simp
  have "binary64 (real_of_int n) =
          real_of_int (round_half_even (real_of_int n / 2 powr real_of_int (e - 52))) *
          2 powr real_of_int (e - 52)"
    unfolding binary64_def Let_def e_def [symmetric] m using False by simp
  also have "\<dots> = real_of_int (n * 2 ^ j) * (1 / 2 ^ j)"
    unfolding u r ..
  also have "\<dots> = real_of_int n" by simp
  finally show ?thesis .
qed

text \<open>
  The doubles of the example below: 0.7 is no double, and 45 times the double next to it
  is below 31.5.
\<close>

lemma binary64_7_10: "binary64 (7 / 10) = 6305039478318694 / 2 ^ 53"
proof -
  have "binary64 (7 / 10) =
          of_int (round_half_even ((7 / 10) / (1 / 2 ^ 53))) * (1 / 2 ^ 53)"
    by (rule binary64_eval [where k = "- 1"]) (simp_all add: powr_minus_divide)
  also have "\<dots> = 6305039478318694 / 2 ^ 53"
    by (simp add: round_half_even_def Let_def)
  finally show ?thesis .
qed

lemma binary64_45_times:
  "binary64 (45 * (6305039478318694 / 2 ^ 53)) = 8866461766385663 / 2 ^ 48"
proof -
  have "binary64 (45 * (6305039478318694 / 2 ^ 53)) =
          of_int (round_half_even ((45 * (6305039478318694 / 2 ^ 53)) / (1 / 2 ^ 48))) *
          (1 / 2 ^ 48)"
    by (rule binary64_eval [where k = 4]) (simp_all add: powr_minus_divide)
  also have "\<dots> = 8866461766385663 / 2 ^ 48"
    by (simp add: round_half_even_def Let_def)
  finally show ?thesis .
qed

lemma binary64_500: "binary64 500 = 500"
  using binary64_int [of 500] by simp

subsection \<open>With a network record\<close>

text \<open>
  Claim C5. With a network record of the requested resource type, \<open>estimateTransferSize\<close>
  returns the record's transfer size, 0 when that is missing, whatever the total bytes
  are. With a record of another type it returns the total bytes times the record's
  compression ratio, rounded to an integer; the product and the quotient are those of
  doubles. The ratio is the transfer size over the resource size, and it is 1 when the
  resource size is missing or NaN, zero, negative, or an infinity.
\<close>

theorem estimateTransferSize_with_record:
  "(resourceType r = rtype \<longrightarrow>
      estimateTransferSize (Some r) totalBytes rtype =
        (case transferSize r of Num t \<Rightarrow> t | _ \<Rightarrow> 0) \<and>
      estimateTransferSize (Some r) totalBytes' rtype =
        estimateTransferSize (Some r) totalBytes rtype) \<and>
   (resourceType r \<noteq> rtype \<longrightarrow>
      estimateTransferSize (Some r) totalBytes rtype =
        Math_round (binary64 (totalBytes *
          (case resourceSize r of
             Number (Finite s) \<Rightarrow>
               if 0 < s then binary64 ((case transferSize r of Num t \<Rightarrow> t | _ \<Rightarrow> 0) / s)
               else 1
           | Number PlusInfinity \<Rightarrow> 1
           | Number MinusInfinity \<Rightarrow> 1
           | Missing \<Rightarrow> 1
           | NotANumber \<Rightarrow> 1))))"
proof (intro conjI impI)
  assume "resourceType r = rtype"
  then show "estimateTransferSize (Some r) totalBytes rtype =
      (case transferSize r of Num t \<Rightarrow> t | _ \<Rightarrow> 0)"
    by (cases "transferSize r") (simp_all add: estimateTransferSize_def)
next
  assume "resourceType r = rtype"
  then show "estimateTransferSize (Some r) totalBytes' rtype =
      estimateTransferSize (Some r) totalBytes rtype"
    by (simp add: estimateTransferSize_def)
next
  assume d: "resourceType r \<noteq> rtype"
  have t: "or_zero (transferSize r) = (case transferSize r of Num t \<Rightarrow> t | _ \<Rightarrow> 0)"
    by (cases "transferSize r") simp_all
  show "estimateTransferSize (Some r) totalBytes rtype =
      Math_round (binary64 (totalBytes *
        (case resourceSize r of
           Number (Finite s) \<Rightarrow>
             if 0 < s then binary64 ((case transferSize r of Num t \<Rightarrow> t | _ \<Rightarrow> 0) / s)
             else 1
         | Number PlusInfinity \<Rightarrow> 1
         | Number MinusInfinity \<Rightarrow> 1
         | Missing \<Rightarrow> 1
         | NotANumber \<Rightarrow> 1)))"
  proof (cases "resourceSize r")
    case Missing
    with d show ?thesis by (simp add: estimateTransferSize_def)
  next
    case NotANumber
    with d show ?thesis by (simp add: estimateTransferSize_def)
  next
    case (Number x)
    with d t show ?thesis by (cases x) (simp_all add: estimateTransferSize_def)
  qed
qed

theorem estimateTransferSize_with_record_witness:
  "estimateTransferSize
     (Some \<lparr>requestId = ''1'', url = ''a.js'', resourceType = Some ''Script'',
            transferSize = Num 4000, resourceSize = Number (Finite 9000)\<rparr>) 123 (Some ''Script'') =
     4000 \<and>
   estimateTransferSize
     (Some \<lparr>requestId = ''2'', url = ''index.html'', resourceType = Some ''Document'',
            transferSize = Num 7000, resourceSize = Number (Finite 10000)\<rparr>) 45 (Some ''Script'') =
     31 \<and>
   estimateTransferSize
     (Some \<lparr>requestId = ''3'', url = ''index.html'', resourceType = Some ''Document'',
            transferSize = Undefined, resourceSize = Number (Finite 0)\<rparr>) 500 (Some ''Script'') =
     500 \<and>
   estimateTransferSize
     (Some \<lparr>requestId = ''4'', url = ''index.html'', resourceType = Some ''Document'',
            transferSize = Num 7000, resourceSize = Number PlusInfinity\<rparr>) 500 (Some ''Script'') =
     500"
proof -
  have a: "estimateTransferSize
     (Some \<lparr>requestId = ''1'', url = ''a.js'', resourceType = Some ''Script'',
            transferSize = Num 4000, resourceSize = Number (Finite 9000)\<rparr>) 123 (Some ''Script'') =
     4000"
    using estimateTransferSize_with_record
      [of "\<lparr>requestId = ''1'', url = ''a.js'', resourceType = Some ''Script'',
            transferSize = Num 4000, resourceSize = Number (Finite 9000)\<rparr>" "Some ''Script''"
          123 123]
    by simp
  have "estimateTransferSize
     (Some \<lparr>requestId = ''2'', url = ''index.html'', resourceType = Some ''Document'',
            transferSize = Num 7000, resourceSize = Number (Finite 10000)\<rparr>) 45 (Some ''Script'') =
     Math_round (binary64 (45 * binary64 (7 / 10)))"
    using estimateTransferSize_with_record
      [of "\<lparr>requestId = ''2'', url = ''index.html'', resourceType = Some ''Document'',
            transferSize = Num 7000, resourceSize = Number (Finite 10000)\<rparr>" "Some ''Script''"
          45 45]
    by simp
  also have "\<dots> = Math_round (8866461766385663 / 2 ^ 48)"
    by (simp only: binary64_7_10 binary64_45_times)
  also have "\<dots> = 31"
    by (simp add: Math_round_def)
  finally have b: "estimateTransferSize
     (Some \<lparr>requestId = ''2'', url = ''index.html'', resourceType = Some ''Document'',
            transferSize = Num 7000, resourceSize = Number (Finite 10000)\<rparr>) 45 (Some ''Script'') =
     31" .
  have c: "estimateTransferSize
     (Some \<lparr>requestId = ''3'', url = ''index.html'', resourceType = Some ''Document'',
            transferSize = Undefined, resourceSize = Number (Finite 0)\<rparr>) 500 (Some ''Script'') =
     500"
    using estimateTransferSize_with_record
      [of "\<lparr>requestId = ''3'', url = ''index.html'', resourceType = Some ''Document'',
            transferSize = Undefined, resourceSize = Number (Finite 0)\<rparr>" "Some ''Script''"
          500 500]
    by (simp add: binary64_500 Math_round_def)
  have d: "estimateTransferSize
     (Some \<lparr>requestId = ''4'', url = ''index.html'', resourceType = Some ''Document'',
            transferSize = Num 7000, resourceSize = Number PlusInfinity\<rparr>) 500 (Some ''Script'') =
     500"
    using estimateTransferSize_with_record
      [of "\<lparr>requestId = ''4'', url = ''index.html'', resourceType = Some ''Document'',
            transferSize = Num 7000, resourceSize = Number PlusInfinity\<rparr>" "Some ''Script''"
          500 500]
    by (simp add: binary64_500 Math_round_def)
  from a b c d show ?thesis by blast
qed

text \<open>
  With the ratio 1 a whole number of bytes comes back as it is, and the test of
  \<^verbatim>\<open>Number.isFinite\<close> is what makes the ratio 1 for an infinite resource size: the
  quotient by the infinity would be 0.
\<close>

lemma estimateTransferSize_ratio_one:
  assumes "resourceType r \<noteq> rtype"
    and "\<not> (Number_isFinite (field_or_zero (resourceSize r)) \<and>
             js_greater (field_or_zero (resourceSize r)) 0)"
    and "\<bar>n\<bar> < 2 ^ 53"
  shows "estimateTransferSize (Some r) (of_int n) rtype = of_int n"
proof -
  have mr: "Math_round (real_of_int n) = real_of_int n"
    by (simp add: Math_round_def)
  have one: "(if Number_isFinite (field_or_zero (resourceSize r)) \<and>
                 js_greater (field_or_zero (resourceSize r)) 0
              then q else 1) = (1::real)" for q
    using assms(2) by auto
  show ?thesis
    using assms(1,3) by (simp add: estimateTransferSize_def Let_def one binary64_int mr)
qed

lemma quotient_by_infinity:
  "js_greater PlusInfinity 0 \<and> \<not> Number_isFinite PlusInfinity \<and> js_divide 7000 PlusInfinity = 0"
  by simp

text \<open>
  Claim C6. Without a network record and for total bytes that are not negative,
  \<open>estimateTransferSize\<close> returns the total bytes times 0.2 for a stylesheet, times 0.33 for
  a script or a document and times 0.5 for any other or no resource type, rounded; the
  result is not negative. For 1000 bytes these are 200, 330 and 500.
\<close>

theorem estimateTransferSize_without_record:
  "0 \<le> totalBytes \<Longrightarrow>
     estimateTransferSize None totalBytes rtype =
       Math_round (totalBytes *
         (if rtype = Some ''Stylesheet'' then 0.2
          else if rtype = Some ''Script'' \<or> rtype = Some ''Document'' then 0.33
          else 0.5)) \<and>
     0 \<le> estimateTransferSize None totalBytes rtype \<and>
     estimateTransferSize None 1000 (Some ''Stylesheet'') = 200 \<and>
     estimateTransferSize None 1000 (Some ''Script'') = 330 \<and>
     estimateTransferSize None 1000 None = 500"
  by (simp add: estimateTransferSize_def Math_round_def)

theorem estimateTransferSize_without_record_witness:
  "(0::real) \<le> 1001 \<and> estimateTransferSize None 1001 (Some ''Document'') = 330 \<and>
   0 \<le> estimateTransferSize None 1001 (Some ''Document'')"
proof -
  have h: "(0::real) \<le> 1001" by simp
  from estimateTransferSize_without_record [OF h, of "Some ''Document''"]
  show ?thesis by (simp add: Math_round_def)
qed

section \<open>Properties of the graph simulation\<close>

subsection \<open>Traversals\<close>

lemma traverse_stateless: "traverse (\<lambda>n u. (f n, u)) g s = (map f g, s)"
  by (induction g) simp_all

lemma traverse_Cons:
  "traverse f (n # ns) s =
     (fst (f n s) # fst (traverse f ns (snd (f n s))), snd (traverse f ns (snd (f n s))))"
  by (simp split: prod.splits)

lemma requests_simps [simp]:
  "requests [] = []"
  "requests (NetworkNode r # g) = r # requests g"
  "requests (CPUNode c # g) = requests g"
  by (simp_all add: requests_def map_filter_simps)

lemma set_requests: "r \<in> set (requests g) \<longleftrightarrow> NetworkNode r \<in> set g"
proof (induction g)
  case Nil
  show ?case by simp
next
  case (Cons n g)
  then show ?case by (cases n) auto
qed

subsection \<open>The first traversal\<close>

lemma reduce_snd_network:
  "snd (reduceTransferSize wbu (NetworkNode r) m) =
     (if applies wbu r then m(requestId r \<mapsto> transferSize r) else m)"
  by (simp add: reduceTransferSize_def applies_def Let_def split: option.splits)

lemma reduce_snd_cpu: "snd (reduceTransferSize wbu (CPUNode c) m) = m"
  by (simp add: reduceTransferSize_def)

lemma reduce_fst_network:
  "fst (reduceTransferSize wbu (NetworkNode r) m) =
     (if applies wbu r
      then NetworkNode (r\<lparr>transferSize :=
             Math_max (js_minus (transferSize r) (the (wbu (network_request.url r)))) 0\<rparr>)
      else NetworkNode r)"
  by (simp add: reduceTransferSize_def applies_def Let_def split: option.splits)

lemma reduce_fst_cpu: "fst (reduceTransferSize wbu (CPUNode c) m) = CPUNode c"
  by (simp add: reduceTransferSize_def)

lemma reduceTransferSize_node:
  "fst (reduceTransferSize wbu n m) = fst (reduceTransferSize wbu n Map.empty)"
  by (cases n) (simp_all add: reduce_fst_network reduce_fst_cpu)

lemma traverse_reduce_graph:
  "fst (traverse (reduceTransferSize wbu) g m) =
     map (\<lambda>n. fst (reduceTransferSize wbu n Map.empty)) g"
proof (induction g arbitrary: m)
  case Nil
  show ?case by simp
next
  case (Cons n ns)
  show ?case
    unfolding traverse_Cons using Cons.IH reduceTransferSize_node [of wbu n m] by simp
qed

lemma traverse_empty_map: "traverse (reduceTransferSize Map.empty) g m = (g, m)"
  by (induction g arbitrary: m) (simp_all add: reduceTransferSize_def split: node.splits)

text \<open>What the first traversal records for a request id that no network node carries.\<close>

lemma originals_other:
  "k \<notin> requestId ` set (requests g) \<Longrightarrow>
     snd (traverse (reduceTransferSize wbu) g m) k = m k"
proof (induction g arbitrary: m)
  case Nil
  show ?case by simp
next
  case (Cons n g)
  show ?case
  proof (cases n)
    case (NetworkNode r)
    with Cons.prems have "k \<noteq> requestId r" and "k \<notin> requestId ` set (requests g)" by auto
    then show ?thesis
      unfolding traverse_Cons NetworkNode using Cons.IH by (simp add: reduce_snd_network)
  next
    case (CPUNode c)
    with Cons.prems have "k \<notin> requestId ` set (requests g)" by simp
    then show ?thesis
      unfolding traverse_Cons CPUNode using Cons.IH by (simp add: reduce_snd_cpu)
  qed
qed

text \<open>With request ids that are unique, it records the size of each request it reduces.\<close>

lemma originals_recorded:
  "distinct (map requestId (requests g)) \<Longrightarrow> NetworkNode r \<in> set g \<Longrightarrow>
     snd (traverse (reduceTransferSize wbu) g m) (requestId r) =
       (if applies wbu r then Some (transferSize r) else m (requestId r))"
proof (induction g arbitrary: m)
  case Nil
  then show ?case by simp
next
  case (Cons n g)
  show ?case
  proof (cases n)
    case (CPUNode c)
    with Cons.prems have "distinct (map requestId (requests g))" and "NetworkNode r \<in> set g"
      by auto
    then show ?thesis
      unfolding traverse_Cons CPUNode using Cons.IH by (simp add: reduce_snd_cpu)
  next
    case (NetworkNode q)
    from Cons.prems NetworkNode
    have d: "distinct (map requestId (requests g))"
      and q: "requestId q \<notin> requestId ` set (requests g)" by auto
    show ?thesis
    proof (cases "q = r")
      case True
      then show ?thesis
        unfolding traverse_Cons NetworkNode using originals_other [OF q]
        by (simp add: reduce_snd_network)
    next
      case False
      with Cons.prems NetworkNode have r: "NetworkNode r \<in> set g" by simp
      then have "r \<in> set (requests g)" by (simp add: set_requests)
      with q have "requestId q \<noteq> requestId r" by auto
      then show ?thesis
        unfolding traverse_Cons NetworkNode using Cons.IH [OF d r]
        by (simp add: reduce_snd_network)
    qed
  qed
qed

subsection \<open>The second traversal undoes the first\<close>

lemma restore_reduce_node:
  assumes d: "distinct (map requestId (requests g))"
    and u: "Undefined \<notin> set (map transferSize (requests g))"
    and n: "n \<in> set g"
  shows "restoreTransferSize (snd (traverse (reduceTransferSize wbu) g Map.empty))
           (fst (reduceTransferSize wbu n Map.empty)) = n"
proof (cases n)
  case (CPUNode c)
  then show ?thesis by (simp add: reduce_fst_cpu restoreTransferSize_def)
next
  case (NetworkNode r)
  with n have r: "NetworkNode r \<in> set g" by simp
  then have "r \<in> set (requests g)" by (simp add: set_requests)
  then have "transferSize r \<in> set (map transferSize (requests g))" by simp
  with u have nu: "transferSize r \<noteq> Undefined" by metis
  let ?o = "snd (traverse (reduceTransferSize wbu) g Map.empty)"
  have o: "?o (requestId r) = (if applies wbu r then Some (transferSize r) else None)"
    using originals_recorded [OF d r, of wbu Map.empty] by simp
  show ?thesis
  proof (cases "applies wbu r")
    case True
    with o nu show ?thesis
      unfolding NetworkNode
      by (cases "transferSize r") (simp_all add: reduce_fst_network restoreTransferSize_def)
  next
    case False
    with o show ?thesis
      unfolding NetworkNode by (simp add: reduce_fst_network restoreTransferSize_def)
  qed
qed

lemma restore_reduce_graph:
  assumes "distinct (map requestId (requests g))"
    and "Undefined \<notin> set (map transferSize (requests g))"
    and "traverse (reduceTransferSize wbu) g Map.empty = (g1, originals)"
  shows "map (restoreTransferSize originals) g1 = g"
proof -
  have g1: "g1 = map (\<lambda>n. fst (reduceTransferSize wbu n Map.empty)) g"
    using traverse_reduce_graph [of wbu g Map.empty] assms(3) by simp
  have o: "originals = snd (traverse (reduceTransferSize wbu) g Map.empty)"
    using assms(3) by simp
  show ?thesis
    unfolding g1 o map_map comp_def
    using restore_reduce_node [OF assms(1,2)] by (simp add: map_idI)
qed

subsection \<open>Rounding to tens\<close>



subsection \<open>Runs on the example inputs\<close>

lemmas example_defs =
  example_items_def example_graph_def small_graph_def example_simulator_def
  strict_simulator_def no_options_def bytesOf_def

lemmas engine_defs =
  computeWasteWithGraph_def computeWasteWithTTIGraph_def effectiveWastedBytesByUrl_def
  addWastedBytes_def reduceTransferSize_def restoreTransferSize_def Math_round_def Let_def

lemma example_run:
  "computeWasteWithGraph ''unused-css-rules'' example_items example_graph example_simulator
     no_options =
   (example_graph,
    [Simulate ''unused-css-rules--before'', Simulate ''unused-css-rules--after''],
    Inr \<lparr>savings = 50,
         simulationBeforeChanges = \<lparr>timeInMs = 130, nodeTimings = 65\<rparr>,
         simulationAfterChanges = \<lparr>timeInMs = 766 / 10, nodeTimings = 383 / 10\<rparr>\<rparr>)"
  by (simp add: engine_defs example_defs)


lemma strict_run:
  "computeWasteWithGraph ''unused-javascript'' [\<lparr>url = ''a.js'', wastedBytes = 100\<rparr>]
     small_graph strict_simulator no_options =
   ([NetworkNode \<lparr>requestId = ''1'', url = ''a.js'', resourceType = Some ''Script'',
                  transferSize = Num 0, resourceSize = Number (Finite 300)\<rparr>],
    [Simulate ''unused-javascript--before'', Simulate ''unused-javascript--after''],
    Inl (Raised ''request without bytes''))"
  by (simp add: engine_defs example_defs)

lemma example_reduced:
  "fst (traverse (reduceTransferSize (effectiveWastedBytesByUrl no_options example_items))
          example_graph Map.empty) =
   [NetworkNode \<lparr>requestId = ''1'', url = ''a.js'', resourceType = Some ''Script'',
                  transferSize = Num 6000, resourceSize = Number (Finite 30000)\<rparr>,
    CPUNode ''task'',
    NetworkNode \<lparr>requestId = ''2'', url = ''b.css'', resourceType = Some ''Stylesheet'',
                  transferSize = Num 1660, resourceSize = Number (Finite 9000)\<rparr>]"
  by (simp add: engine_defs example_defs)

subsection \<open>The transfer sizes after a call\<close>


text \<open>
  Claim C1, as amended. In a graph whose network nodes have request ids of their own and
  transfer sizes that are not undefined, a call of \<open>computeWasteWithGraph\<close> that returns
  normally, or that ends with the error of the first simulation, leaves the graph as it
  was before the call. A call that ends with the error of the second simulation leaves the
  graph with the reduced transfer sizes: the second traversal is not reached.
\<close>

theorem computeWasteWithGraph_restores:
  assumes "distinct (map requestId (requests graph))"
    and "Undefined \<notin> set (map transferSize (requests graph))"
    and "computeWasteWithGraph mid results graph sim opts = (g', calls, res)"
  shows "(\<not> isl res \<longrightarrow> g' = graph) \<and>
         (length calls < 2 \<longrightarrow> g' = graph) \<and>
         (isl res \<and> length calls = 2 \<longrightarrow>
            g' = fst (traverse (reduceTransferSize (effectiveWastedBytesByUrl opts results))
                        graph Map.empty))"
proof -
  let ?lbl = "case label opts of None \<Rightarrow> [] | Some l \<Rightarrow> l"
  let ?b = "mid @ ''-'' @ ?lbl @ ''-before''"
  let ?a = "mid @ ''-'' @ ?lbl @ ''-after''"
  let ?wbu = "effectiveWastedBytesByUrl opts results"
  obtain g1 originals
    where tr: "traverse (reduceTransferSize ?wbu) graph Map.empty = (g1, originals)"
    by (cases "traverse (reduceTransferSize ?wbu) graph Map.empty")
  have restored: "map (restoreTransferSize originals) g1 = graph"
    by (rule restore_reduce_graph [OF assms(1,2) tr])
  show ?thesis
  proof (cases "simulate sim graph ?b")
    case (Inl e)
    with assms(3) show ?thesis by (auto simp: computeWasteWithGraph_def Let_def)
  next
    case before: (Inr before)
    show ?thesis
    proof (cases "simulate sim g1 ?a")
      case (Inl e)
      with assms(3) before tr show ?thesis
        by (auto simp: computeWasteWithGraph_def Let_def)
    next
      case (Inr after)
      with assms(3) before tr restored show ?thesis
        by (auto simp: computeWasteWithGraph_def Let_def traverse_stateless)
    qed
  qed
qed

theorem computeWasteWithGraph_restores_witness:
  "distinct (map requestId (requests example_graph)) \<and>
   Undefined \<notin> set (map transferSize (requests example_graph)) \<and>
   \<not> isl (snd (snd (computeWasteWithGraph ''unused-css-rules'' example_items example_graph
                      example_simulator no_options))) \<and>
   fst (computeWasteWithGraph ''unused-css-rules'' example_items example_graph
          example_simulator no_options) = example_graph \<and>
   distinct (map requestId (requests small_graph)) \<and>
   Undefined \<notin> set (map transferSize (requests small_graph)) \<and>
   isl (snd (snd (computeWasteWithGraph ''unused-javascript''
                    [\<lparr>url = ''a.js'', wastedBytes = 100\<rparr>] small_graph strict_simulator
                    no_options))) \<and>
   fst (computeWasteWithGraph ''unused-javascript'' [\<lparr>url = ''a.js'', wastedBytes = 100\<rparr>]
          small_graph strict_simulator no_options) =
     fst (traverse
            (reduceTransferSize
               (effectiveWastedBytesByUrl no_options [\<lparr>url = ''a.js'', wastedBytes = 100\<rparr>]))
            small_graph Map.empty)"
proof -
  have d: "distinct (map requestId (requests example_graph))"
    and u: "Undefined \<notin> set (map transferSize (requests example_graph))"
    and d': "distinct (map requestId (requests small_graph))"
    and u': "Undefined \<notin> set (map transferSize (requests small_graph))"
    by (simp_all add: example_graph_def small_graph_def)
  note a = computeWasteWithGraph_restores [OF d u example_run]
  note b = computeWasteWithGraph_restores [OF d' u' strict_run]
  from a b d u d' u' show ?thesis
    unfolding example_run strict_run by simp
qed

theorem computeWasteWithGraph_raise_counterexample:
  "fst (computeWasteWithGraph ''unused-javascript'' [\<lparr>url = ''a.js'', wastedBytes = 100\<rparr>]
          small_graph strict_simulator no_options) =
     [NetworkNode \<lparr>requestId = ''1'', url = ''a.js'', resourceType = Some ''Script'',
                   transferSize = Num 0, resourceSize = Number (Finite 300)\<rparr>] \<and>
   small_graph =
     [NetworkNode \<lparr>requestId = ''1'', url = ''a.js'', resourceType = Some ''Script'',
                   transferSize = Num 100, resourceSize = Number (Finite 300)\<rparr>] \<and>
   fst (computeWasteWithGraph ''unused-javascript'' [\<lparr>url = ''a.js'', wastedBytes = 100\<rparr>]
          small_graph strict_simulator no_options) \<noteq> small_graph"
  unfolding strict_run by (simp add: small_graph_def)

text \<open>
  Both conditions on the graph are needed for a call that returns. Two network nodes with
  one request id share one recorded size, and a transfer size that is undefined becomes
  NaN and is not written back.
\<close>

lemma shared_request_id_run:
  "fst (computeWasteWithGraph ''unused-javascript'' [\<lparr>url = ''a.js'', wastedBytes = 50\<rparr>]
          [NetworkNode \<lparr>requestId = ''1'', url = ''a.js'', resourceType = Some ''Script'',
                        transferSize = Num 100, resourceSize = Number (Finite 300)\<rparr>,
           NetworkNode \<lparr>requestId = ''1'', url = ''b.js'', resourceType = Some ''Script'',
                        transferSize = Num 200, resourceSize = Number (Finite 600)\<rparr>]
          example_simulator no_options) =
     [NetworkNode \<lparr>requestId = ''1'', url = ''a.js'', resourceType = Some ''Script'',
                   transferSize = Num 100, resourceSize = Number (Finite 300)\<rparr>,
      NetworkNode \<lparr>requestId = ''1'', url = ''b.js'', resourceType = Some ''Script'',
                   transferSize = Num 100, resourceSize = Number (Finite 600)\<rparr>]"
  by (simp add: engine_defs example_defs)

lemma undefined_transfer_size_run:
  "fst (computeWasteWithGraph ''unused-javascript'' [\<lparr>url = ''a.js'', wastedBytes = 50\<rparr>]
          [NetworkNode \<lparr>requestId = ''1'', url = ''a.js'', resourceType = Some ''Script'',
                        transferSize = Undefined, resourceSize = Number (Finite 300)\<rparr>]
          example_simulator no_options) =
     [NetworkNode \<lparr>requestId = ''1'', url = ''a.js'', resourceType = Some ''Script'',
                   transferSize = NaN, resourceSize = Number (Finite 300)\<rparr>]"
  by (simp add: engine_defs example_defs)

subsection \<open>The reduction of the transfer sizes\<close>

text \<open>
  Claim C2, as amended. The first traversal keeps the nodes of the graph in place. It
  leaves a CPU node, and a network node whose url has no entry or the entry 0 in the map
  of wasted bytes, as they are. It overwrites the transfer size of a network node whose url
  has an entry other than 0, positive or negative, with the maximum of 0 and the size less
  the entry. Where the entry is positive and the size is a number that is not negative,
  the new size is not above the old one.
\<close>

theorem transferSize_reduction:
  assumes "i < length graph"
  shows "length (fst (traverse (reduceTransferSize wbu) graph m)) = length graph \<and>
    (\<forall>c. graph ! i = CPUNode c \<longrightarrow>
       fst (traverse (reduceTransferSize wbu) graph m) ! i = graph ! i) \<and>
    (\<forall>r. graph ! i = NetworkNode r \<and>
          (wbu (network_request.url r) = None \<or> wbu (network_request.url r) = Some 0) \<longrightarrow>
       fst (traverse (reduceTransferSize wbu) graph m) ! i = graph ! i) \<and>
    (\<forall>r w. graph ! i = NetworkNode r \<and> wbu (network_request.url r) = Some w \<and> w \<noteq> 0 \<longrightarrow>
       fst (traverse (reduceTransferSize wbu) graph m) ! i =
         NetworkNode (r\<lparr>transferSize := Math_max (js_minus (transferSize r) w) 0\<rparr>)) \<and>
    (\<forall>r w t. graph ! i = NetworkNode r \<and> wbu (network_request.url r) = Some w \<and> 0 < w \<and>
            transferSize r = Num t \<and> 0 \<le> t \<longrightarrow>
       fst (traverse (reduceTransferSize wbu) graph m) ! i =
         NetworkNode (r\<lparr>transferSize := Num (max (t - w) 0)\<rparr>) \<and>
       max (t - w) 0 \<le> t)"
proof -
  have g1: "fst (traverse (reduceTransferSize wbu) graph m) ! i =
              fst (reduceTransferSize wbu (graph ! i) Map.empty)"
    using assms by (simp add: traverse_reduce_graph)
  show ?thesis
    unfolding g1
    by (auto simp: traverse_reduce_graph reduce_fst_cpu reduce_fst_network applies_def)
qed

theorem transferSize_reduction_witness:
  "(0::nat) < length example_graph \<and> (1::nat) < length example_graph \<and>
   fst (traverse (reduceTransferSize (effectiveWastedBytesByUrl no_options example_items))
          example_graph Map.empty) ! 0 =
     NetworkNode \<lparr>requestId = ''1'', url = ''a.js'', resourceType = Some ''Script'',
                  transferSize = Num 6000, resourceSize = Number (Finite 30000)\<rparr> \<and>
   fst (traverse (reduceTransferSize (effectiveWastedBytesByUrl no_options example_items))
          example_graph Map.empty) ! 1 = example_graph ! 1"
proof -
  have l: "(0::nat) < length example_graph" and l': "(1::nat) < length example_graph"
    by (simp_all add: example_graph_def)
  have w: "effectiveWastedBytesByUrl no_options example_items ''a.js'' = Some 4000"
    by (simp add: engine_defs example_defs)
  have n0: "example_graph ! 0 =
              NetworkNode \<lparr>requestId = ''1'', url = ''a.js'', resourceType = Some ''Script'',
                           transferSize = Num 10000, resourceSize = Number (Finite 30000)\<rparr>"
    and n1: "example_graph ! 1 = CPUNode ''task''"
    by (simp_all add: example_graph_def)
  from transferSize_reduction
         [OF l, of "effectiveWastedBytesByUrl no_options example_items" Map.empty] w n0
  have "fst (traverse (reduceTransferSize (effectiveWastedBytesByUrl no_options example_items))
               example_graph Map.empty) ! 0 =
          NetworkNode \<lparr>requestId = ''1'', url = ''a.js'', resourceType = Some ''Script'',
                       transferSize = Num 6000, resourceSize = Number (Finite 30000)\<rparr>"
    by simp
  moreover from transferSize_reduction
         [OF l', of "effectiveWastedBytesByUrl no_options example_items" Map.empty] n1
  have "fst (traverse (reduceTransferSize (effectiveWastedBytesByUrl no_options example_items))
               example_graph Map.empty) ! 1 = example_graph ! 1"
    by simp
  ultimately show ?thesis using l l' by simp
qed

theorem negative_waste_counterexample:
  "effectiveWastedBytesByUrl no_options [\<lparr>url = ''a.js'', wastedBytes = - 5\<rparr>] ''a.js'' =
     Some (- 5) \<and>
   small_graph =
     [NetworkNode \<lparr>requestId = ''1'', url = ''a.js'', resourceType = Some ''Script'',
                   transferSize = Num 100, resourceSize = Number (Finite 300)\<rparr>] \<and>
   fst (traverse
          (reduceTransferSize
             (effectiveWastedBytesByUrl no_options [\<lparr>url = ''a.js'', wastedBytes = - 5\<rparr>]))
          small_graph Map.empty) =
     [NetworkNode \<lparr>requestId = ''1'', url = ''a.js'', resourceType = Some ''Script'',
                   transferSize = Num 105, resourceSize = Number (Finite 300)\<rparr>]"
  by (simp add: engine_defs example_defs)

subsection \<open>The savings\<close>



subsection \<open>No waste, no savings\<close>

text \<open>
  Claim C9. When the effective map of wasted bytes is empty, because an empty map is
  provided or because none is provided and there are no items, and the simulator gives the
  same outcome for the same graph whatever the label, \<open>computeWasteWithGraph\<close> leaves the
  graph untouched and simulates it twice: it returns savings of 0 and the same result
  before and after, or ends with the error of the first simulation.
\<close>

theorem empty_waste_no_savings:
  assumes "providedWastedBytesByUrl opts = Some Map.empty \<or>
           (providedWastedBytesByUrl opts = None \<and> results = [])"
    and "\<forall>l l'. simulate sim graph l = simulate sim graph l'"
  shows "computeWasteWithGraph mid results graph sim opts =
    (case simulate sim graph
            (mid @ ''-'' @ (case label opts of None \<Rightarrow> [] | Some l \<Rightarrow> l) @ ''-before'') of
       Inl e \<Rightarrow>
         (graph,
          [Simulate (mid @ ''-'' @ (case label opts of None \<Rightarrow> [] | Some l \<Rightarrow> l) @ ''-before'')],
          Inl (Raised e))
     | Inr r \<Rightarrow>
         (graph,
          [Simulate (mid @ ''-'' @ (case label opts of None \<Rightarrow> [] | Some l \<Rightarrow> l) @ ''-before''),
           Simulate (mid @ ''-'' @ (case label opts of None \<Rightarrow> [] | Some l \<Rightarrow> l) @ ''-after'')],
          Inr \<lparr>savings = 0, simulationBeforeChanges = r, simulationAfterChanges = r\<rparr>))"
proof -
  have e: "effectiveWastedBytesByUrl opts results = Map.empty"
    using assms(1) by (auto simp: effectiveWastedBytesByUrl_def)
  let ?b = "mid @ ''-'' @ (case label opts of None \<Rightarrow> [] | Some l \<Rightarrow> l) @ ''-before''"
  let ?a = "mid @ ''-'' @ (case label opts of None \<Rightarrow> [] | Some l \<Rightarrow> l) @ ''-after''"
  have s: "simulate sim graph ?a = simulate sim graph ?b" using assms(2) by blast
  show ?thesis
  proof (cases "simulate sim graph ?b")
    case (Inl e)
    then show ?thesis by (simp add: computeWasteWithGraph_def Let_def)
  next
    case (Inr r)
    have id: "map (restoreTransferSize Map.empty) graph = graph"
      by (rule map_idI) (simp add: restoreTransferSize_def split: node.splits)
    from Inr s have a: "simulate sim graph ?a = Inr r" by simp
    show ?thesis
      using Inr a
      by (simp add: computeWasteWithGraph_def Let_def e traverse_empty_map traverse_stateless
            id Math_round_def)
  qed
qed

theorem empty_waste_no_savings_witness:
  "providedWastedBytesByUrl (no_options\<lparr>providedWastedBytesByUrl := Some Map.empty\<rparr>) =
     Some Map.empty \<and>
   computeWasteWithGraph ''unused-css-rules'' example_items example_graph example_simulator
     (no_options\<lparr>providedWastedBytesByUrl := Some Map.empty\<rparr>) =
   (example_graph,
    [Simulate ''unused-css-rules--before'', Simulate ''unused-css-rules--after''],
    Inr \<lparr>savings = 0,
         simulationBeforeChanges = \<lparr>timeInMs = 130, nodeTimings = 65\<rparr>,
         simulationAfterChanges = \<lparr>timeInMs = 130, nodeTimings = 65\<rparr>\<rparr>)"
proof -
  have p: "providedWastedBytesByUrl (no_options\<lparr>providedWastedBytesByUrl := Some Map.empty\<rparr>) =
             Some Map.empty \<or>
           (providedWastedBytesByUrl (no_options\<lparr>providedWastedBytesByUrl := Some Map.empty\<rparr>) =
              None \<and> example_items = [])"
    by simp
  have d: "\<forall>l l'. simulate example_simulator example_graph l =
                  simulate example_simulator example_graph l'"
    by (simp add: example_simulator_def)
  from empty_waste_no_savings [OF p d, of "''unused-css-rules''"]
  show ?thesis
    by (simp add: example_defs)
qed

section \<open>Properties of the audit product\<close>

lemmas product_defs =
  createAuditProduct_def assembleProduct_def sortByWastedBytes_def example_result_def
  example_collaborators_def idle_collaborators_def scoreForWastedMs_def
  linearInterpolation_def WASTED_defs

lemma example_product:
  "createAuditProduct example_collaborators example_result (Some example_graph)
     example_simulator (Some ()) \<lparr>gatherMode = ''navigation''\<rparr> =
   ([\<lparr>url = ''a.js'', wastedBytes = 4000\<rparr>,
     \<lparr>url = ''b.css'', wastedBytes = 1000\<rparr>,
     \<lparr>url = ''b.css'', wastedBytes = 340\<rparr>],
    [Simulate ''unused-css-rules-overallLoad-before'',
     Simulate ''unused-css-rules-overallLoad-after'',
     Simulate ''unused-css-rules-fcp-before'',
     Simulate ''unused-css-rules-fcp-after'',
     Simulate ''unused-css-rules-lcp-before'',
     Simulate ''unused-css-rules-lcp-after''],
    Inr \<lparr>explanation = None, warnings = None,
         displayValue = DisplayValueByteSavings 5340, numericValue = 50,
         numericUnit = ''millisecond'', score = 23 / 24,
         details =
           [\<lparr>url = ''a.js'', wastedBytes = 4000\<rparr>,
            \<lparr>url = ''b.css'', wastedBytes = 1000\<rparr>,
            \<lparr>url = ''b.css'', wastedBytes = 340\<rparr>],
         metricSavings = \<lparr>FCP = 40, LCP = 50\<rparr>\<rparr>)"
  by (simp add: product_defs engine_defs example_defs)

lemma example_timespan_product:
  "createAuditProduct example_collaborators example_result None example_simulator None
     \<lparr>gatherMode = ''timespan''\<rparr> =
   ([\<lparr>url = ''a.js'', wastedBytes = 4000\<rparr>,
     \<lparr>url = ''b.css'', wastedBytes = 1000\<rparr>,
     \<lparr>url = ''b.css'', wastedBytes = 340\<rparr>],
    [ComputeWastedMsFromWastedBytes 5340],
    Inr \<lparr>explanation = None, warnings = None,
         displayValue = DisplayValueByteSavings 5340, numericValue = 534 / 10,
         numericUnit = ''millisecond'', score = 1 - 534 / 12000,
         details =
           [\<lparr>url = ''a.js'', wastedBytes = 4000\<rparr>,
            \<lparr>url = ''b.css'', wastedBytes = 1000\<rparr>,
            \<lparr>url = ''b.css'', wastedBytes = 340\<rparr>],
         metricSavings = \<lparr>FCP = 0, LCP = 0\<rparr>\<rparr>)"
  by (simp add: product_defs engine_defs example_defs)

text \<open>
  Claim C7. In navigation mode \<open>createAuditProduct\<close> throws its own error when the graph
  is absent and when the processed navigation is absent, before any call to the simulator,
  and it throws no error of its own when both are present. In any other mode it returns
  a product, and the same one whether the graph and the processed navigation are there or
  not.
\<close>

theorem createAuditProduct_preconditions:
  "(gatherMode gc = ''navigation'' \<and> graph = None \<longrightarrow>
      snd (createAuditProduct env result graph sim pn gc) =
        ([], Inl (Error ''Page dependency graph should always be computed in navigation mode''))) \<and>
   (gatherMode gc = ''navigation'' \<and> graph \<noteq> None \<and> pn = None \<longrightarrow>
      snd (createAuditProduct env result graph sim pn gc) =
        ([], Inl (Error ''Processed navigation should always be computed in navigation mode''))) \<and>
   (gatherMode gc = ''navigation'' \<and> graph \<noteq> None \<and> pn \<noteq> None \<longrightarrow>
      (\<forall>msg. snd (snd (createAuditProduct env result graph sim pn gc)) \<noteq> Inl (Error msg))) \<and>
   (gatherMode gc \<noteq> ''navigation'' \<longrightarrow>
      \<not> isl (snd (snd (createAuditProduct env result graph sim pn gc))) \<and>
      createAuditProduct env result graph sim pn gc =
        createAuditProduct env result None sim None gc)"
proof (intro conjI impI)
  assume "gatherMode gc = ''navigation'' \<and> graph = None"
  then show "snd (createAuditProduct env result graph sim pn gc) =
        ([], Inl (Error ''Page dependency graph should always be computed in navigation mode''))"
    by (simp add: createAuditProduct_def Let_def)
next
  assume "gatherMode gc = ''navigation'' \<and> graph \<noteq> None \<and> pn = None"
  then show "snd (createAuditProduct env result graph sim pn gc) =
        ([], Inl (Error ''Processed navigation should always be computed in navigation mode''))"
    by (auto simp: createAuditProduct_def Let_def)
next
  assume a: "gatherMode gc = ''navigation'' \<and> graph \<noteq> None \<and> pn \<noteq> None"
  then obtain g p where g: "graph = Some g" and p: "pn = Some p" by auto
  show "\<forall>msg. snd (snd (createAuditProduct env result graph sim pn gc)) \<noteq> Inl (Error msg)"
    using a unfolding g p
    by (auto simp: createAuditProduct_def computeWasteWithTTIGraph_def computeWasteWithGraph_def
          Let_def split: prod.splits sum.splits)
next
  assume "gatherMode gc \<noteq> ''navigation''"
  then show "\<not> isl (snd (snd (createAuditProduct env result graph sim pn gc)))"
    by (simp add: createAuditProduct_def Let_def)
next
  assume "gatherMode gc \<noteq> ''navigation''"
  then show "createAuditProduct env result graph sim pn gc =
        createAuditProduct env result None sim None gc"
    by (simp add: createAuditProduct_def Let_def)
qed

theorem createAuditProduct_preconditions_witness:
  "snd (createAuditProduct example_collaborators example_result None example_simulator
          (Some ()) \<lparr>gatherMode = ''navigation''\<rparr>) =
     ([], Inl (Error ''Page dependency graph should always be computed in navigation mode'')) \<and>
   snd (createAuditProduct example_collaborators example_result (Some example_graph)
          example_simulator None \<lparr>gatherMode = ''navigation''\<rparr>) =
     ([], Inl (Error ''Processed navigation should always be computed in navigation mode'')) \<and>
   \<not> isl (snd (snd (createAuditProduct example_collaborators example_result
                      (Some example_graph) example_simulator (Some ())
                      \<lparr>gatherMode = ''navigation''\<rparr>))) \<and>
   \<not> isl (snd (snd (createAuditProduct example_collaborators example_result None
                      example_simulator None \<lparr>gatherMode = ''timespan''\<rparr>))) \<and>
   createAuditProduct example_collaborators example_result (Some example_graph)
     example_simulator (Some ()) \<lparr>gatherMode = ''timespan''\<rparr> =
   createAuditProduct example_collaborators example_result None example_simulator None
     \<lparr>gatherMode = ''timespan''\<rparr>"
  using
    createAuditProduct_preconditions
      [of "\<lparr>gatherMode = ''navigation''\<rparr>" None example_collaborators example_result
          example_simulator "Some ()"]
    createAuditProduct_preconditions
      [of "\<lparr>gatherMode = ''navigation''\<rparr>" "Some example_graph" example_collaborators
          example_result example_simulator None]
    createAuditProduct_preconditions
      [of "\<lparr>gatherMode = ''timespan''\<rparr>" "Some example_graph" example_collaborators
          example_result example_simulator "Some ()"]
    example_product example_timespan_product
  by simp

text \<open>
  Claim C8. When the network records are there, none of them has a transfer size that is
  truthy and the gather mode is \<^verbatim>\<open>timespan\<close>, \<open>audit\<close> returns the object with score 1
  and the not-applicable flag, and the request of the network records is the only call it
  has made: the detector, the dependency graph, the load simulator, the processed
  navigation and the simulations are not reached.
\<close>

theorem audit_not_applicable:
  assumes "NetworkRecords_request env = Inr networkRecords"
    and "\<not> list_ex (\<lambda>r. truthy (transferSize r)) networkRecords"
    and "gatherMode gc = ''timespan''"
  shows "audit env gc = ([NetworkRecordsRequest], Inr (ScoreOnly 1 True))"
  using assms by (simp add: audit_def)

theorem audit_not_applicable_witness:
  "NetworkRecords_request idle_collaborators =
     Inr [\<lparr>requestId = ''7'', url = ''data:,'', resourceType = None,
           transferSize = Undefined, resourceSize = Missing\<rparr>,
          \<lparr>requestId = ''8'', url = ''cached.js'', resourceType = Some ''Script'',
           transferSize = Num 0, resourceSize = Number (Finite 500)\<rparr>] \<and>
   gatherMode \<lparr>gatherMode = ''timespan''\<rparr> = ''timespan'' \<and>
   audit idle_collaborators \<lparr>gatherMode = ''timespan''\<rparr> =
     ([NetworkRecordsRequest], Inr (ScoreOnly 1 True))"
proof -
  let ?records =
    "[\<lparr>requestId = ''7'', url = ''data:,'', resourceType = None,
       transferSize = Undefined, resourceSize = Missing\<rparr>,
      \<lparr>requestId = ''8'', url = ''cached.js'', resourceType = Some ''Script'',
       transferSize = Num 0, resourceSize = Number (Finite 500)\<rparr>]"
  have r: "NetworkRecords_request idle_collaborators = Inr ?records"
    by (simp add: idle_collaborators_def)
  have n: "\<not> list_ex (\<lambda>r. truthy (transferSize r)) ?records" by simp
  have m: "gatherMode \<lparr>gatherMode = ''timespan''\<rparr> = ''timespan''" by simp
  from audit_not_applicable [OF r n m] r m show ?thesis by simp
qed

text \<open>
  The same records in a navigation are no reason to stop: the audit goes on to the
  detector and the other collaborators.
\<close>

lemma idle_fields:
  "audit_impl idle_collaborators = (\<lambda>records. Resolves example_result)"
  "PageDependencyGraph_request idle_collaborators = Inr example_graph"
  "LoadSimulator_request idle_collaborators = Inr example_simulator"
  "ProcessedNavigation_request idle_collaborators = Inr ()"
  "NetworkRecords_request idle_collaborators =
     Inr [\<lparr>requestId = ''7'', url = ''data:,'', resourceType = None,
           transferSize = Undefined, resourceSize = Missing\<rparr>,
          \<lparr>requestId = ''8'', url = ''cached.js'', resourceType = Some ''Script'',
           transferSize = Num 0, resourceSize = Number (Finite 500)\<rparr>]"
  by (simp_all add: idle_collaborators_def example_collaborators_def)

lemma idle_navigation_goes_on:
  "fst (audit idle_collaborators \<lparr>gatherMode = ''navigation''\<rparr>) =
     [NetworkRecordsRequest, DetectorCall, PageDependencyGraphRequest, LoadSimulatorRequest,
      ProcessedNavigationRequest,
      Simulate ''unused-css-rules-overallLoad-before'',
      Simulate ''unused-css-rules-overallLoad-after'',
      Simulate ''unused-css-rules-fcp-before'',
      Simulate ''unused-css-rules-fcp-after'',
      Simulate ''unused-css-rules-lcp-before'',
      Simulate ''unused-css-rules-lcp-after'']"
proof -
  have "createAuditProduct idle_collaborators example_result (Some example_graph)
          example_simulator (Some ()) \<lparr>gatherMode = ''navigation''\<rparr> =
        createAuditProduct example_collaborators example_result (Some example_graph)
          example_simulator (Some ()) \<lparr>gatherMode = ''navigation''\<rparr>"
    by (simp add: createAuditProduct_def assembleProduct_def idle_collaborators_def)
  then show ?thesis
    by (simp add: audit_def idle_fields example_product)
qed

subsection \<open>The order of the items\<close>

lemma createAuditProduct_items:
  "fst (createAuditProduct env result graph sim pn gc) = sortByWastedBytes (items result)"
  by (simp add: createAuditProduct_def Let_def split: option.splits prod.splits sum.splits)

lemma sortByWastedBytes_sorted:
  "sorted_wrt (\<lambda>a b. wastedBytes b \<le> wastedBytes a) (sortByWastedBytes xs)"
proof -
  have "sorted (map (\<lambda>item. - wastedBytes item) (sortByWastedBytes xs))"
    unfolding sortByWastedBytes_def by (rule sorted_sort_key)
  then show ?thesis by (simp add: sorted_wrt_map)
qed

lemma sortByWastedBytes_mset: "mset (sortByWastedBytes xs) = mset xs"
  by (simp add: sortByWastedBytes_def)

lemma sortByWastedBytes_stable:
  "filter (\<lambda>item. wastedBytes item = k) (sortByWastedBytes xs) =
     filter (\<lambda>item. wastedBytes item = k) xs"
  using sort_key_stable [of "\<lambda>item. - wastedBytes item" "- k" xs]
  by (simp add: sortByWastedBytes_def)

text \<open>
  Claim C10. Whatever the outcome of \<open>createAuditProduct\<close>, the array of items that the
  caller passed holds after the call the same items in descending order of their wasted
  bytes, items with equal wasted bytes in the order they had: the sort is done on the
  caller's array, not on a copy.
\<close>

theorem createAuditProduct_sorts_in_place:
  "fst (createAuditProduct env result graph sim pn gc) = sortByWastedBytes (items result) \<and>
   sorted_wrt (\<lambda>a b. wastedBytes b \<le> wastedBytes a)
     (fst (createAuditProduct env result graph sim pn gc)) \<and>
   mset (fst (createAuditProduct env result graph sim pn gc)) = mset (items result) \<and>
   filter (\<lambda>item. wastedBytes item = k) (fst (createAuditProduct env result graph sim pn gc)) =
     filter (\<lambda>item. wastedBytes item = k) (items result)"
  unfolding createAuditProduct_items
  using sortByWastedBytes_sorted sortByWastedBytes_mset sortByWastedBytes_stable by blast

theorem createAuditProduct_sorts_in_place_witness:
  "items example_result =
     [\<lparr>url = ''b.css'', wastedBytes = 1000\<rparr>,
      \<lparr>url = ''a.js'', wastedBytes = 4000\<rparr>,
      \<lparr>url = ''b.css'', wastedBytes = 340\<rparr>] \<and>
   fst (createAuditProduct example_collaborators example_result None example_simulator None
          \<lparr>gatherMode = ''navigation''\<rparr>) =
     [\<lparr>url = ''a.js'', wastedBytes = 4000\<rparr>,
      \<lparr>url = ''b.css'', wastedBytes = 1000\<rparr>,
      \<lparr>url = ''b.css'', wastedBytes = 340\<rparr>] \<and>
   fst (createAuditProduct example_collaborators example_result None example_simulator None
          \<lparr>gatherMode = ''navigation''\<rparr>) \<noteq> items example_result"
  using
    createAuditProduct_sorts_in_place
      [of example_collaborators example_result None example_simulator None
          "\<lparr>gatherMode = ''navigation''\<rparr>" 0]
  by (simp add: example_result_def example_items_def sortByWastedBytes_def)

end
